theory Spec2Isabelle
  imports Main "HOL-Library.Word"
begin

section \<open>Go values\<close>

text \<open>
  The package \<open>notify\<close> (notification.go) wraps four remote operations of the desktop
  notification service. Its integers are machine integers: \<open>uint32\<close> and \<open>int32\<close> are
  32-bit words (read with \<open>uint\<close> and \<open>sint\<close>), and Go's \<open>int\<close>, the parameter type of
  CloseNotification, is a 64-bit word read with \<open>sint\<close>, as on a 64-bit platform.
\<close>

type_synonym uint32 = "32 word"
type_synonym int32 = "32 word"
type_synonym go_int = "64 word"

text \<open>
  A Go slice is either nil or a (possibly empty) sequence: \<open>var ret []string\<close> is
  \<open>NilSlice\<close>, the literal \<open>[]string{}\<close> is \<open>Slice []\<close>. Both have length 0, and Go
  tells them apart with \<open>ret == nil\<close>.
\<close>

datatype 'a slice = NilSlice | Slice "'a list"

fun len :: "'a slice \<Rightarrow> nat" where
  "len NilSlice = 0"
| "len (Slice xs) = length xs"

text \<open>
  A value passed through \<open>interface{}\<close>: the variadic arguments of a bus call and the
  elements of a reply body. The constructor is the dynamic Go type. A
  \<open>dbus.Variant\<close> wraps such a value; \<open>map[string]dbus.Variant\<close> is a partial map.
\<close>

datatype go_val =
    GoString string
  | GoUint32 uint32
  | GoInt32 int32
  | GoBool bool
  | GoStrings "string slice"
  | GoHints "string \<Rightarrow> Variant option"
and Variant = MakeVariant go_val

text \<open>
  Go's \<open>error\<close> interface; \<open>nil\<close> is \<open>None\<close> of \<open>error option\<close>. \<open>errors.New\<close> builds
  the first kind, the bus library's error replies are the second.
\<close>

datatype error = ErrorsNew string | DBusError string "go_val list"

text \<open>A Go call either returns or panics (a method call on a nil interface value).\<close>

datatype 'a outcome = Panic | Done 'a

section \<open>The data model of notification.go\<close>

record Notification =
  AppName :: string
  ReplacesID :: uint32
  AppIcon :: string
  Summary :: string
  Body :: string
  Actions :: "string slice"
  Hints :: "string \<Rightarrow> Variant option"
  ExpireTimeout :: int32

record ServerInformation =
  Name :: string
  Vendor :: string
  Version :: string
  SpecVersion :: string

definition objectPath :: string where
  "objectPath = ''/org/freedesktop/Notifications''"

definition dbusNotificationsInterface :: string where
  "dbusNotificationsInterface = ''org.freedesktop.Notifications''"

definition getCapabilities :: string where
  "getCapabilities = ''org.freedesktop.Notifications.GetCapabilities''"

definition closeNotification :: string where
  "closeNotification = ''org.freedesktop.Notifications.CloseNotification''"

definition notify :: string where
  "notify = ''org.freedesktop.Notifications.Notify''"

definition getServerInformation :: string where
  "getServerInformation = ''org.freedesktop.Notifications.GetServerInformation''"

section \<open>The bus connection\<close>

text \<open>
  Modelled from the spec: the message-bus library (the import \<open>github.com/godbus/dbus\<close>:
  \<open>dbus.Conn\<close>, \<open>Conn.Object\<close>, \<open>Object.Call\<close>, \<open>dbus.Call\<close> and \<open>Call.Store\<close>) is an
  external collaborator whose code is not part of the repository. The spec describes
  each operation as one synchronous request/response over a live, pre-established
  connection, with three kinds of fault: transport, remote and decode.

  A method call is the message the library is asked to send: destination, object path,
  method name, flags and the positional arguments.
\<close>

record Message =
  msg_dest :: string
  msg_path :: string
  msg_method :: string
  msg_flags :: nat
  msg_args :: "go_val list"

text \<open>
  The library's \<open>Call\<close> struct as the package reads it: \<open>Err\<close> (nil when the round trip
  completed) and the reply body (the field \<open>Body\<close> of \<open>dbus.Call\<close>, named \<open>CallBody\<close>
  here because \<open>Body\<close> is the field of \<open>Notification\<close>).
\<close>

record Call =
  Err :: "error option"
  CallBody :: "go_val list"

text \<open>
  A connection is whatever answers: \<open>respond\<close> maps the messages sent so far on this
  connection (the last one is the current request) to the call's result, so that any
  remote service and any test double, with or without memory, is an instance; \<open>sent\<close>
  is the log of the messages transmitted. A \<open>*dbus.Conn\<close> is a handle into the store
  of connections; every handle is live, as the spec requires of the caller.
\<close>

record Conn =
  respond :: "Message list \<Rightarrow> Call"
  sent :: "Message list"

type_synonym conn_ptr = nat
type_synonym bus = "conn_ptr \<Rightarrow> Conn"

record BusObject =
  obj_conn :: conn_ptr
  obj_dest :: string
  obj_path :: string

text \<open>
  Modelled from the spec: the library's \<open>conn.Object(dest, path)\<close>, a \<open>BusObject\<close>
  interface value for the named peer and object; it is never nil.
\<close>

definition Object :: "conn_ptr \<Rightarrow> string \<Rightarrow> string \<Rightarrow> BusObject option" where
  "Object c d p = Some \<lparr>obj_conn = c, obj_dest = d, obj_path = p\<rparr>"

text \<open>
  Modelled from the spec: the library's \<open>obj.Call(method, flags, args...)\<close>, one
  synchronous request/response: it transmits one message on the object's connection and
  blocks for the reply.
\<close>

definition Object_Call :: "BusObject \<Rightarrow> string \<Rightarrow> nat \<Rightarrow> go_val list \<Rightarrow> bus \<Rightarrow> Call \<times> bus" where
  "Object_Call obj m fl args b =
     (let c = b (obj_conn obj);
          msgs = sent c @ [\<lparr>msg_dest = obj_dest obj, msg_path = obj_path obj,
                            msg_method = m, msg_flags = fl, msg_args = args\<rparr>]
      in (respond c msgs, b(obj_conn obj := c\<lparr>sent := msgs\<rparr>)))"

text \<open>
  Modelled from the spec: the library's \<open>call.Store(dests...)\<close>, the decode of a reply.
  A decode fault is a reply payload that does not match the expected shape, arity or
  type, and the fields not yet decoded keep their zero value. So \<open>Store\<close> returns the
  call's error if it has one; otherwise the body must have as many values as there are
  destinations (else nothing is stored), and the values are stored left to right, each
  into a destination of exactly its type; the first mismatch stops the decode, and the
  destinations not reached keep their values. One function per destination type the
  package uses.
\<close>

definition length_mismatch :: error where
  "length_mismatch = ErrorsNew ''dbus.Store: length mismatch''"

definition type_mismatch :: error where
  "type_mismatch = ErrorsNew ''dbus.Store: type mismatch''"

text \<open>Storing one value into one destination: a type assertion on the value.\<close>

fun the_uint32 :: "go_val \<Rightarrow> uint32 option" where
  "the_uint32 (GoUint32 v) = Some v"
| "the_uint32 _ = None"

fun the_strings :: "go_val \<Rightarrow> string slice option" where
  "the_strings (GoStrings v) = Some v"
| "the_strings _ = None"

fun the_string :: "go_val \<Rightarrow> string option" where
  "the_string (GoString v) = Some v"
| "the_string _ = None"

definition store_uint32 :: "go_val \<Rightarrow> uint32 \<Rightarrow> uint32 \<times> error option" where
  "store_uint32 v d = (case the_uint32 v of Some x \<Rightarrow> (x, None) | None \<Rightarrow> (d, Some type_mismatch))"

definition store_strings :: "go_val \<Rightarrow> string slice \<Rightarrow> string slice \<times> error option" where
  "store_strings v d = (case the_strings v of Some x \<Rightarrow> (x, None) | None \<Rightarrow> (d, Some type_mismatch))"

definition store_string :: "go_val \<Rightarrow> string \<Rightarrow> string \<times> error option" where
  "store_string v d = (case the_string v of Some x \<Rightarrow> (x, None) | None \<Rightarrow> (d, Some type_mismatch))"

text \<open>Modelled from the spec: \<open>call.Store(&ret)\<close> with \<open>ret\<close> a \<open>uint32\<close>.\<close>

definition Call_Store_uint32 :: "Call \<Rightarrow> uint32 \<Rightarrow> uint32 \<times> error option" where
  "Call_Store_uint32 call d =
     (if Err call \<noteq> None then (d, Err call)
      else case CallBody call of
             [v] \<Rightarrow> store_uint32 v d
           | _ \<Rightarrow> (d, Some length_mismatch))"

text \<open>Modelled from the spec: \<open>call.Store(&ret)\<close> with \<open>ret\<close> a \<open>[]string\<close>.\<close>

definition Call_Store_strings :: "Call \<Rightarrow> string slice \<Rightarrow> string slice \<times> error option" where
  "Call_Store_strings call d =
     (if Err call \<noteq> None then (d, Err call)
      else case CallBody call of
             [v] \<Rightarrow> store_strings v d
           | _ \<Rightarrow> (d, Some length_mismatch))"

text \<open>
  Modelled from the spec:
  \<open>call.Store(&ret.Name, &ret.Vendor, &ret.Version, &ret.SpecVersion)\<close>, four string
  destinations, the fields of one \<open>ServerInformation\<close>, written in this order.
\<close>

definition Call_Store_ServerInformation ::
  "Call \<Rightarrow> ServerInformation \<Rightarrow> ServerInformation \<times> error option" where
  "Call_Store_ServerInformation call ret =
     (if Err call \<noteq> None then (ret, Err call)
      else case CallBody call of
             [v1, v2, v3, v4] \<Rightarrow>
               (let (x1, e1) = store_string v1 (Name ret); r1 = ret\<lparr>Name := x1\<rparr> in
                if e1 \<noteq> None then (r1, e1)
                else let (x2, e2) = store_string v2 (Vendor r1); r2 = r1\<lparr>Vendor := x2\<rparr> in
                if e2 \<noteq> None then (r2, e2)
                else let (x3, e3) = store_string v3 (Version r2); r3 = r2\<lparr>Version := x3\<rparr> in
                if e3 \<noteq> None then (r3, e3)
                else let (x4, e4) = store_string v4 (SpecVersion r3);
                         r4 = r3\<lparr>SpecVersion := x4\<rparr>
                in (r4, e4))
           | _ \<Rightarrow> (ret, Some length_mismatch))"

section \<open>The operations\<close>

text \<open>
  The free function \<open>SendNotification(conn, n)\<close>, lines 88-109. The diagnostics written
  with \<open>log.Printf\<close> go to the process's log and are not part of any result.
\<close>

definition SendNotification ::
  "conn_ptr \<Rightarrow> Notification \<Rightarrow> bus \<Rightarrow> ((uint32 \<times> error option) \<times> bus) outcome" where
  "SendNotification c n b =
     (case Object c dbusNotificationsInterface objectPath of
        None \<Rightarrow> Panic
      | Some obj \<Rightarrow>
          (let (call, b') = Object_Call obj notify 0
                 [GoString (AppName n),
                  GoUint32 (ReplacesID n),
                  GoString (AppIcon n),
                  GoString (Summary n),
                  GoString (Body n),
                  GoStrings (Actions n),
                  GoHints (Hints n),
                  GoInt32 (ExpireTimeout n)] b
           in if Err call \<noteq> None then Done ((0, Err call), b')
              else let (ret, err) = Call_Store_uint32 call 0
                   in if err \<noteq> None then Done ((ret, err), b')
                      else Done ((ret, None), b')))"

text \<open>
  The struct \<open>notifier\<close>, lines 41-43, and its constructor \<open>New\<close>. A method has the
  receiver \<open>self *notifier\<close>: it takes the struct and returns it as the call leaves it,
  next to the result and the bus.
\<close>

record notifier =
  conn :: conn_ptr

definition New :: "conn_ptr \<Rightarrow> notifier" where
  "New c = \<lparr>conn = c\<rparr>"

text \<open>The method \<open>(self *notifier) SendNotification(n)\<close>, lines 82-84.\<close>

definition notifier_SendNotification ::
  "notifier \<Rightarrow> Notification \<Rightarrow> bus \<Rightarrow> ((uint32 \<times> error option) \<times> notifier \<times> bus) outcome" where
  "notifier_SendNotification self n b =
     (case SendNotification (conn self) n b of
        Panic \<Rightarrow> Panic
      | Done (r, b') \<Rightarrow> Done (r, self, b'))"

text \<open>\<open>GetCapabilities\<close>, lines 116-130.\<close>

definition GetCapabilities ::
  "notifier \<Rightarrow> bus \<Rightarrow> ((string slice \<times> error option) \<times> notifier \<times> bus) outcome" where
  "GetCapabilities self b =
     (case Object (conn self) dbusNotificationsInterface objectPath of
        None \<Rightarrow> Panic
      | Some obj \<Rightarrow>
          (let (call, b') = Object_Call obj getCapabilities 0 [] b
           in if Err call \<noteq> None then Done ((Slice [], Err call), self, b')
              else let (ret, err) = Call_Store_strings call NilSlice
                   in if err \<noteq> None then Done ((ret, err), self, b')
                      else Done ((ret, None), self, b')))"

text \<open>
  \<open>CloseNotification\<close>, lines 138-145, with \<open>id'\<close> for its parameter \<open>id\<close>; the
  conversion \<open>uint32(id)\<close> keeps the low 32 bits.
\<close>

definition CloseNotification ::
  "notifier \<Rightarrow> go_int \<Rightarrow> bus \<Rightarrow> ((bool \<times> error option) \<times> notifier \<times> bus) outcome" where
  "CloseNotification self id' b =
     (case Object (conn self) dbusNotificationsInterface objectPath of
        None \<Rightarrow> Panic
      | Some obj \<Rightarrow>
          (let (call, b') = Object_Call obj closeNotification 0 [GoUint32 (ucast id')] b
           in if Err call \<noteq> None then Done ((False, Err call), self, b')
              else Done ((True, None), self, b')))"

text \<open>\<open>GetServerInformation\<close>, lines 168-186; \<open>ServerInformation{}\<close> is all empty.\<close>

definition ServerInformation_zero :: ServerInformation where
  "ServerInformation_zero = \<lparr>Name = [], Vendor = [], Version = [], SpecVersion = []\<rparr>"

definition GetServerInformation ::
  "notifier \<Rightarrow> bus \<Rightarrow> ((ServerInformation \<times> error option) \<times> notifier \<times> bus) outcome" where
  "GetServerInformation self b =
     (case Object (conn self) dbusNotificationsInterface objectPath of
        None \<Rightarrow>
          Done ((ServerInformation_zero, Some (ErrorsNew ''error creating dbus call object'')),
                self, b)
      | Some obj \<Rightarrow>
          (let (call, b') = Object_Call obj getServerInformation 0 [] b
           in if Err call \<noteq> None then Done ((ServerInformation_zero, Err call), self, b')
              else let ret = ServerInformation_zero;
                       (ret, err) = Call_Store_ServerInformation call ret
                   in if err \<noteq> None then Done ((ret, err), self, b')
                      else Done ((ret, None), self, b')))"

section \<open>The remote protocol\<close>

text \<open>
  The request each operation is specified to put on the wire (the table of remote
  operations), and \<open>reply\<close>: the call result the connection behind handle \<open>c\<close> gives
  when that message is the next one sent on it.
\<close>

definition Notify_msg :: "Notification \<Rightarrow> Message" where
  "Notify_msg n =
     \<lparr>msg_dest = dbusNotificationsInterface, msg_path = objectPath,
      msg_method = notify, msg_flags = 0,
      msg_args = [GoString (AppName n), GoUint32 (ReplacesID n), GoString (AppIcon n),
                  GoString (Summary n), GoString (Body n), GoStrings (Actions n),
                  GoHints (Hints n), GoInt32 (ExpireTimeout n)]\<rparr>"

definition CloseNotification_msg :: "uint32 \<Rightarrow> Message" where
  "CloseNotification_msg i =
     \<lparr>msg_dest = dbusNotificationsInterface, msg_path = objectPath,
      msg_method = closeNotification, msg_flags = 0, msg_args = [GoUint32 i]\<rparr>"

definition GetCapabilities_msg :: Message where
  "GetCapabilities_msg =
     \<lparr>msg_dest = dbusNotificationsInterface, msg_path = objectPath,
      msg_method = getCapabilities, msg_flags = 0, msg_args = []\<rparr>"

definition GetServerInformation_msg :: Message where
  "GetServerInformation_msg =
     \<lparr>msg_dest = dbusNotificationsInterface, msg_path = objectPath,
      msg_method = getServerInformation, msg_flags = 0, msg_args = []\<rparr>"

definition reply :: "bus \<Rightarrow> conn_ptr \<Rightarrow> Message \<Rightarrow> Call" where
  "reply b c m = respond (b c) (sent (b c) @ [m])"

definition transmit :: "bus \<Rightarrow> conn_ptr \<Rightarrow> Message \<Rightarrow> bus" where
  "transmit b c m = b(c := (b c)\<lparr>sent := sent (b c) @ [m]\<rparr>)"

text \<open>
  Modelled from the spec: the faked remote double of the testable properties. It answers
  a Notify request whose replaces_id is nonzero with that id, and one whose replaces_id
  is 0 with a fresh id greater than zero (here the number of messages seen, skipping 0
  when the counter wraps); any other request gets an error reply.
\<close>

definition fresh_id :: "Message list \<Rightarrow> uint32" where
  "fresh_id msgs = (let k = of_nat (length msgs) in if k = 0 then 1 else k)"

definition notify_double :: "Message list \<Rightarrow> Call" where
  "notify_double msgs =
     (case msgs of
        [] \<Rightarrow> \<lparr>Err = Some (DBusError ''org.freedesktop.DBus.Error.Failed'' []), CallBody = []\<rparr>
      | _ \<Rightarrow>
          (case msg_args (last msgs) of
             _ # GoUint32 r # _ \<Rightarrow>
               \<lparr>Err = None, CallBody = [GoUint32 (if r = 0 then fresh_id msgs else r)]\<rparr>
           | _ \<Rightarrow>
               \<lparr>Err = Some (DBusError ''org.freedesktop.DBus.Error.InvalidArgs'' []),
                CallBody = []\<rparr>))"

text \<open>
  Test doubles: a connection that gives the same call result to every request, and a
  bus on which nothing has been sent yet and every connection is answered by \<open>r\<close>.
\<close>

definition const_double :: "Call \<Rightarrow> Message list \<Rightarrow> Call" where
  "const_double call msgs = call"

definition fresh_bus :: "(Message list \<Rightarrow> Call) \<Rightarrow> bus" where
  "fresh_bus r c = \<lparr>respond = r, sent = []\<rparr>"

text \<open>The notification of the README's quick intro, and one that replaces notification 7.\<close>

definition readme_notification :: Notification where
  "readme_notification =
     \<lparr>AppName = ''Test GO App'', ReplacesID = 0, AppIcon = ''mail-unread'',
      Summary = ''Test'', Body = ''This is a test of the DBus bindings for go.'',
      Actions = Slice [], Hints = Map.empty, ExpireTimeout = 5000\<rparr>"

definition replacing_notification :: Notification where
  "replacing_notification = readme_notification\<lparr>ReplacesID := 7\<rparr>"

section \<open>What a failed decode leaves behind\<close>

text \<open>
  The fields of a \<open>ServerInformation\<close> in their positional order, and the strings a
  four-destination \<open>Store\<close> has written when it returns: none when the body has not
  exactly four values, else the body's leading strings up to the first value that is
  not a string. \<open>partially_populated\<close> pads them with empty strings to four fields.
\<close>

definition info_fields :: "ServerInformation \<Rightarrow> string list" where
  "info_fields info = [Name info, Vendor info, Version info, SpecVersion info]"

fun leading_strings :: "go_val list \<Rightarrow> string list" where
  "leading_strings [] = []"
| "leading_strings (v # vs) =
     (case the_string v of None \<Rightarrow> [] | Some x \<Rightarrow> x # leading_strings vs)"

definition decoded :: "go_val list \<Rightarrow> string list" where
  "decoded body = (if length body = 4 then leading_strings body else [])"

definition partially_populated :: "go_val list \<Rightarrow> string list" where
  "partially_populated body = take 4 (decoded body @ [[], [], [], []])"

section \<open>Each operation as one request and one reply\<close>

lemma Object_Call_eq:
  "Object_Call \<lparr>obj_conn = c, obj_dest = d, obj_path = p\<rparr> m fl args b =
     (reply b c \<lparr>msg_dest = d, msg_path = p, msg_method = m, msg_flags = fl, msg_args = args\<rparr>,
      transmit b c \<lparr>msg_dest = d, msg_path = p, msg_method = m, msg_flags = fl, msg_args = args\<rparr>)"
  by (simp add: Object_Call_def reply_def transmit_def Let_def)

lemma SendNotification_eq:
  "SendNotification c n b =
     Done (if Err (reply b c (Notify_msg n)) \<noteq> None then (0, Err (reply b c (Notify_msg n)))
           else Call_Store_uint32 (reply b c (Notify_msg n)) 0,
           transmit b c (Notify_msg n))"
  by (simp add: SendNotification_def Object_def Object_Call_eq Notify_msg_def split: prod.splits)

lemma GetCapabilities_eq:
  "GetCapabilities self b =
     Done (if Err (reply b (conn self) GetCapabilities_msg) \<noteq> None
           then (Slice [], Err (reply b (conn self) GetCapabilities_msg))
           else Call_Store_strings (reply b (conn self) GetCapabilities_msg) NilSlice,
           self, transmit b (conn self) GetCapabilities_msg)"
  by (simp add: GetCapabilities_def Object_def Object_Call_eq GetCapabilities_msg_def
      split: prod.splits)

lemma CloseNotification_eq:
  "CloseNotification self i b =
     Done ((Err (reply b (conn self) (CloseNotification_msg (ucast i))) = None,
            Err (reply b (conn self) (CloseNotification_msg (ucast i)))),
           self, transmit b (conn self) (CloseNotification_msg (ucast i)))"
  by (simp add: CloseNotification_def Object_def Object_Call_eq CloseNotification_msg_def)

lemma GetServerInformation_eq:
  "GetServerInformation self b =
     Done (if Err (reply b (conn self) GetServerInformation_msg) \<noteq> None
           then (ServerInformation_zero, Err (reply b (conn self) GetServerInformation_msg))
           else Call_Store_ServerInformation (reply b (conn self) GetServerInformation_msg)
                  ServerInformation_zero,
           self, transmit b (conn self) GetServerInformation_msg)"
  by (simp add: GetServerInformation_def Object_def Object_Call_eq GetServerInformation_msg_def
      split: prod.splits)

subsection \<open>Type assertions and the decode\<close>

lemma the_uint32_Some: "the_uint32 x = Some v \<longleftrightarrow> x = GoUint32 v"
  by (cases x) auto

lemma the_string_Some: "the_string x = Some v \<longleftrightarrow> x = GoString v"
  by (cases x) auto

lemma the_strings_Some: "the_strings x = Some v \<longleftrightarrow> x = GoStrings v"
  by (cases x) auto

lemma Call_Store_uint32_ok:
  "Err call = None \<Longrightarrow> CallBody call = [GoUint32 v] \<Longrightarrow> Call_Store_uint32 call d = (v, None)"
  by (simp add: Call_Store_uint32_def store_uint32_def)

lemma Call_Store_uint32_fault:
  "Err call = None \<Longrightarrow> \<nexists>v. CallBody call = [GoUint32 v] \<Longrightarrow>
     Call_Store_uint32 call d = (d, Some length_mismatch) \<or>
     Call_Store_uint32 call d = (d, Some type_mismatch)"
  by (auto simp: Call_Store_uint32_def store_uint32_def the_uint32_Some
      split: list.splits option.splits)

lemma Call_Store_strings_ok:
  "Err call = None \<Longrightarrow> CallBody call = [GoStrings v] \<Longrightarrow> Call_Store_strings call d = (v, None)"
  by (simp add: Call_Store_strings_def store_strings_def)

lemma Call_Store_strings_fault:
  "Err call = None \<Longrightarrow> \<nexists>v. CallBody call = [GoStrings v] \<Longrightarrow>
     Call_Store_strings call d = (d, Some length_mismatch) \<or>
     Call_Store_strings call d = (d, Some type_mismatch)"
  by (auto simp: Call_Store_strings_def store_strings_def the_strings_Some
      split: list.splits option.splits)

lemma Call_Store_ServerInformation_ok:
  "Err call = None \<Longrightarrow> CallBody call = [GoString a, GoString v, GoString w, GoString x] \<Longrightarrow>
     Call_Store_ServerInformation call ret =
       (\<lparr>Name = a, Vendor = v, Version = w, SpecVersion = x\<rparr>, None)"
  by (simp add: Call_Store_ServerInformation_def store_string_def)

lemma Call_Store_ServerInformation_fault:
  assumes "Err call = None"
    and "\<nexists>a v w x. CallBody call = [GoString a, GoString v, GoString w, GoString x]"
  shows "\<exists>info e. Call_Store_ServerInformation call ServerInformation_zero = (info, Some e) \<and>
           (e = length_mismatch \<or> e = type_mismatch) \<and>
           info_fields info = partially_populated (CallBody call)"
  using assms
  by (auto simp: Call_Store_ServerInformation_def store_string_def ServerInformation_zero_def
        info_fields_def partially_populated_def decoded_def the_string_Some
      split: list.splits option.splits)

subsection \<open>Narrowing to 32 bits\<close>

lemma uint_ucast_go_int: "uint (ucast (i :: go_int) :: uint32) = sint i mod 2 ^ 32"
proof -
  have "uint (ucast i :: uint32) = take_bit 32 (uint i)"
    by (simp add: unsigned_ucast_eq)
  also have "\<dots> = take_bit 32 (sint i)"
    by (simp add: sint_uint take_bit_signed_take_bit)
  also have "\<dots> = sint i mod 2 ^ 32"
    by (simp add: take_bit_eq_mod)
  finally show ?thesis .
qed

lemma ucast_go_int_examples:
  "(ucast (-1 :: go_int) :: uint32) = 4294967295"
  "(ucast (4294967301 :: go_int) :: uint32) = 5"
  by (simp_all add: word_eq_iff_unsigned[where ?'a = int] uint_ucast_go_int)

subsection \<open>The remote double\<close>

lemma notify_double_Notify:
  "notify_double (msgs @ [Notify_msg n]) =
     \<lparr>Err = None,
      CallBody = [GoUint32 (if ReplacesID n = 0 then fresh_id (msgs @ [Notify_msg n])
                            else ReplacesID n)]\<rparr>"
  by (cases msgs) (simp_all add: notify_double_def Notify_msg_def)

lemma fresh_id_pos: "0 < fresh_id msgs"
  by (simp add: fresh_id_def Let_def word_greater_zero_iff)

section \<open>The claims\<close>

text \<open>
  C1. For every notification \<open>n\<close>, SendNotification returns (it does not panic) and
  leaves the bus as it was except that exactly one message has been appended to the log
  of its connection: a call of the remote Notify operation, on the notifications
  interface and object path, whose arguments are the eight fields of \<open>n\<close>, each
  unchanged and under its own Go type, in the order AppName, ReplacesID, AppIcon,
  Summary, Body, Actions, Hints, ExpireTimeout.
\<close>

theorem SendNotification_forwards_fields:
  "\<exists>r. SendNotification c n b =
     Done (r, b(c := (b c)\<lparr>sent := sent (b c) @
       [\<lparr>msg_dest = dbusNotificationsInterface, msg_path = objectPath,
         msg_method = notify, msg_flags = 0,
         msg_args = [GoString (AppName n), GoUint32 (ReplacesID n), GoString (AppIcon n),
                     GoString (Summary n), GoString (Body n), GoStrings (Actions n),
                     GoHints (Hints n), GoInt32 (ExpireTimeout n)]\<rparr>]\<rparr>))"
  by (simp add: SendNotification_eq transmit_def Notify_msg_def)

text \<open>
  C2. If the call completes (\<open>Err\<close> is nil) and the reply body is the single unsigned
  32-bit integer \<open>v\<close>, SendNotification returns exactly \<open>v\<close> and a nil error. In
  particular, against the remote double it returns \<open>ReplacesID n\<close> when that is
  nonzero, and the double's fresh id, which is greater than zero, when it is zero.
\<close>

theorem SendNotification_returns_decoded_id:
  "(Err (reply b c (Notify_msg n)) = None \<and> CallBody (reply b c (Notify_msg n)) = [GoUint32 v]
      \<longrightarrow> SendNotification c n b = Done ((v, None), transmit b c (Notify_msg n))) \<and>
   (respond (b c) = notify_double \<longrightarrow>
      SendNotification c n b =
        Done ((if ReplacesID n = 0 then fresh_id (sent (b c) @ [Notify_msg n]) else ReplacesID n,
               None), transmit b c (Notify_msg n)) \<and>
      0 < fresh_id (sent (b c) @ [Notify_msg n]))"
  by (simp add: SendNotification_eq Call_Store_uint32_ok reply_def notify_double_Notify
        fresh_id_pos)

theorem SendNotification_returns_decoded_id_witness:
  "respond (fresh_bus notify_double 0) = notify_double \<and>
   SendNotification 0 readme_notification (fresh_bus notify_double) =
     Done ((1, None), transmit (fresh_bus notify_double) 0 (Notify_msg readme_notification)) \<and>
   SendNotification 0 replacing_notification (fresh_bus notify_double) =
     Done ((7, None), transmit (fresh_bus notify_double) 0 (Notify_msg replacing_notification)) \<and>
   Err (reply (fresh_bus (const_double \<lparr>Err = None, CallBody = [GoUint32 42]\<rparr>)) 0
          (Notify_msg readme_notification)) = None \<and>
   CallBody (reply (fresh_bus (const_double \<lparr>Err = None, CallBody = [GoUint32 42]\<rparr>)) 0
          (Notify_msg readme_notification)) = [GoUint32 42] \<and>
   SendNotification 0 readme_notification
       (fresh_bus (const_double \<lparr>Err = None, CallBody = [GoUint32 42]\<rparr>)) =
     Done ((42, None),
           transmit (fresh_bus (const_double \<lparr>Err = None, CallBody = [GoUint32 42]\<rparr>)) 0
             (Notify_msg readme_notification))"
  using SendNotification_returns_decoded_id
          [of "fresh_bus notify_double" 0 readme_notification 1]
        SendNotification_returns_decoded_id
          [of "fresh_bus notify_double" 0 replacing_notification 7]
        SendNotification_returns_decoded_id
          [of "fresh_bus (const_double \<lparr>Err = None, CallBody = [GoUint32 42]\<rparr>)" 0
              readme_notification 42]
  by (simp add: fresh_bus_def const_double_def reply_def fresh_id_def
        readme_notification_def replacing_notification_def)

text \<open>
  C3. If the call completes and the reply body is not one sequence of strings,
  GetCapabilities returns a non-nil error (the decode's length or type mismatch)
  together with the nil slice: \<open>ret\<close> as \<open>var ret []string\<close> declared it, of length
  zero. It is not the non-nil \<open>[]string{}\<close>: on a completed call with an empty reply
  body the operation returns nil, as the second theorem computes.
\<close>

theorem GetCapabilities_decode_fault_returns_nil:
  "Err (reply b (conn self) GetCapabilities_msg) = None \<and>
   (\<nexists>s. CallBody (reply b (conn self) GetCapabilities_msg) = [GoStrings s])
     \<longrightarrow> (\<exists>ret e. GetCapabilities self b =
                    Done ((ret, Some e), self, transmit b (conn self) GetCapabilities_msg) \<and>
                  (e = length_mismatch \<or> e = type_mismatch) \<and>
                  ret = NilSlice \<and> len ret = 0)"
  using Call_Store_strings_fault [of "reply b (conn self) GetCapabilities_msg" NilSlice]
  by (auto simp: GetCapabilities_eq)

theorem GetCapabilities_decode_fault_returns_nil_witness:
  "Err (reply (fresh_bus (const_double \<lparr>Err = None, CallBody = [GoUint32 7]\<rparr>)) (conn (New 0))
         GetCapabilities_msg) = None \<and>
   (\<nexists>s. CallBody (reply (fresh_bus (const_double \<lparr>Err = None, CallBody = [GoUint32 7]\<rparr>))
              (conn (New 0)) GetCapabilities_msg) = [GoStrings s]) \<and>
   (\<exists>ret e. GetCapabilities (New 0)
               (fresh_bus (const_double \<lparr>Err = None, CallBody = [GoUint32 7]\<rparr>)) =
        Done ((ret, Some e), New 0,
              transmit (fresh_bus (const_double \<lparr>Err = None, CallBody = [GoUint32 7]\<rparr>))
                (conn (New 0)) GetCapabilities_msg) \<and>
        (e = length_mismatch \<or> e = type_mismatch) \<and> ret = NilSlice \<and> len ret = 0)"
  using GetCapabilities_decode_fault_returns_nil
          [of "fresh_bus (const_double \<lparr>Err = None, CallBody = [GoUint32 7]\<rparr>)" "New 0"]
  by (simp add: reply_def fresh_bus_def const_double_def)

theorem GetCapabilities_decode_fault_not_empty_slice:
  "GetCapabilities (New 0) (fresh_bus (const_double \<lparr>Err = None, CallBody = []\<rparr>)) =
     Done ((NilSlice, Some length_mismatch), New 0,
           transmit (fresh_bus (const_double \<lparr>Err = None, CallBody = []\<rparr>)) 0
             GetCapabilities_msg) \<and>
   (NilSlice :: string slice) \<noteq> Slice [] \<and>
   GetCapabilities (New 0)
       (fresh_bus (const_double
          \<lparr>Err = Some (DBusError ''org.freedesktop.DBus.Error.NoReply'' []), CallBody = []\<rparr>)) =
     Done ((Slice [], Some (DBusError ''org.freedesktop.DBus.Error.NoReply'' [])), New 0,
           transmit (fresh_bus (const_double
              \<lparr>Err = Some (DBusError ''org.freedesktop.DBus.Error.NoReply'' []),
               CallBody = []\<rparr>)) 0 GetCapabilities_msg)"
  by (simp add: GetCapabilities_eq reply_def fresh_bus_def const_double_def New_def
        Call_Store_strings_def store_strings_def)

text \<open>
  C4. CloseNotification returns \<open>(true, nil)\<close> exactly when the call's \<open>Err\<close> is nil;
  an empty reply is such a case; and when \<open>Err\<close> is the fault \<open>e\<close>, it returns \<open>false\<close>
  together with \<open>e\<close> itself.
\<close>

theorem CloseNotification_true_iff_no_fault:
  "((\<exists>b'. CloseNotification self i b = Done ((True, None), self, b')) \<longleftrightarrow>
      Err (reply b (conn self) (CloseNotification_msg (ucast i))) = None) \<and>
   (Err (reply b (conn self) (CloseNotification_msg (ucast i))) = None \<and>
    CallBody (reply b (conn self) (CloseNotification_msg (ucast i))) = []
      \<longrightarrow> CloseNotification self i b =
            Done ((True, None), self, transmit b (conn self) (CloseNotification_msg (ucast i)))) \<and>
   (\<forall>e. Err (reply b (conn self) (CloseNotification_msg (ucast i))) = Some e
      \<longrightarrow> CloseNotification self i b =
            Done ((False, Some e), self, transmit b (conn self) (CloseNotification_msg (ucast i))))"
  by (auto simp: CloseNotification_eq)

theorem CloseNotification_true_iff_no_fault_witness:
  "Err (reply (fresh_bus (const_double \<lparr>Err = None, CallBody = []\<rparr>)) (conn (New 0))
         (CloseNotification_msg (ucast (7 :: go_int)))) = None \<and>
   CallBody (reply (fresh_bus (const_double \<lparr>Err = None, CallBody = []\<rparr>)) (conn (New 0))
         (CloseNotification_msg (ucast (7 :: go_int)))) = [] \<and>
   CloseNotification (New 0) 7 (fresh_bus (const_double \<lparr>Err = None, CallBody = []\<rparr>)) =
     Done ((True, None), New 0,
           transmit (fresh_bus (const_double \<lparr>Err = None, CallBody = []\<rparr>)) (conn (New 0))
             (CloseNotification_msg (ucast (7 :: go_int)))) \<and>
   Err (reply (fresh_bus (const_double
                 \<lparr>Err = Some (DBusError ''org.freedesktop.DBus.Error.ServiceUnknown'' []),
                  CallBody = []\<rparr>)) (conn (New 0))
         (CloseNotification_msg (ucast (7 :: go_int)))) =
     Some (DBusError ''org.freedesktop.DBus.Error.ServiceUnknown'' []) \<and>
   CloseNotification (New 0) 7
       (fresh_bus (const_double
          \<lparr>Err = Some (DBusError ''org.freedesktop.DBus.Error.ServiceUnknown'' []),
           CallBody = []\<rparr>)) =
     Done ((False, Some (DBusError ''org.freedesktop.DBus.Error.ServiceUnknown'' [])), New 0,
           transmit (fresh_bus (const_double
              \<lparr>Err = Some (DBusError ''org.freedesktop.DBus.Error.ServiceUnknown'' []),
               CallBody = []\<rparr>)) (conn (New 0))
             (CloseNotification_msg (ucast (7 :: go_int))))"
  using CloseNotification_true_iff_no_fault
          [of "New 0" 7 "fresh_bus (const_double \<lparr>Err = None, CallBody = []\<rparr>)"]
        CloseNotification_true_iff_no_fault
          [of "New 0" 7 "fresh_bus (const_double
             \<lparr>Err = Some (DBusError ''org.freedesktop.DBus.Error.ServiceUnknown'' []),
              CallBody = []\<rparr>)"]
  by (simp add: reply_def fresh_bus_def const_double_def)

text \<open>
  C5. If the call completes and the reply body is not a single unsigned 32-bit integer,
  SendNotification returns (it does not panic) the id 0 together with a non-nil error,
  the decode's length or type mismatch.
\<close>

theorem SendNotification_decode_fault:
  "Err (reply b c (Notify_msg n)) = None \<and>
   (\<nexists>v. CallBody (reply b c (Notify_msg n)) = [GoUint32 v])
     \<longrightarrow> (\<exists>e. SendNotification c n b = Done ((0, Some e), transmit b c (Notify_msg n)) \<and>
              (e = length_mismatch \<or> e = type_mismatch))"
  using Call_Store_uint32_fault [of "reply b c (Notify_msg n)" 0]
  by (auto simp: SendNotification_eq)

theorem SendNotification_decode_fault_witness:
  "Err (reply (fresh_bus (const_double \<lparr>Err = None, CallBody = []\<rparr>)) 0
         (Notify_msg readme_notification)) = None \<and>
   (\<nexists>v. CallBody (reply (fresh_bus (const_double \<lparr>Err = None, CallBody = []\<rparr>)) 0
              (Notify_msg readme_notification)) = [GoUint32 v]) \<and>
   (\<exists>e. SendNotification 0 readme_notification
           (fresh_bus (const_double \<lparr>Err = None, CallBody = []\<rparr>)) =
         Done ((0, Some e),
               transmit (fresh_bus (const_double \<lparr>Err = None, CallBody = []\<rparr>)) 0
                 (Notify_msg readme_notification)) \<and>
         (e = length_mismatch \<or> e = type_mismatch)) \<and>
   Err (reply (fresh_bus (const_double \<lparr>Err = None, CallBody = [GoString ''17'']\<rparr>)) 0
         (Notify_msg readme_notification)) = None \<and>
   (\<nexists>v. CallBody (reply (fresh_bus (const_double \<lparr>Err = None, CallBody = [GoString ''17'']\<rparr>)) 0
              (Notify_msg readme_notification)) = [GoUint32 v]) \<and>
   (\<exists>e. SendNotification 0 readme_notification
           (fresh_bus (const_double \<lparr>Err = None, CallBody = [GoString ''17'']\<rparr>)) =
         Done ((0, Some e),
               transmit (fresh_bus (const_double \<lparr>Err = None, CallBody = [GoString ''17'']\<rparr>)) 0
                 (Notify_msg readme_notification)) \<and>
         (e = length_mismatch \<or> e = type_mismatch))"
  using SendNotification_decode_fault
          [of "fresh_bus (const_double \<lparr>Err = None, CallBody = []\<rparr>)" 0 readme_notification]
        SendNotification_decode_fault
          [of "fresh_bus (const_double \<lparr>Err = None, CallBody = [GoString ''17'']\<rparr>)" 0
              readme_notification]
  by (simp add: reply_def fresh_bus_def const_double_def)

text \<open>
  C6. If the call completes and the reply body is four strings, GetServerInformation
  returns them, in order, as Name, Vendor, Version and SpecVersion, with a nil error.
  If the call completes and the body is anything else, it returns a non-nil error (the
  decode's length or type mismatch) beside a record whose fields are the strings
  decoded before the fault, in order, and the empty string from there on.
\<close>

theorem GetServerInformation_decodes_four_strings:
  "(Err (reply b (conn self) GetServerInformation_msg) = None \<and>
    CallBody (reply b (conn self) GetServerInformation_msg) =
      [GoString a, GoString v, GoString w, GoString x]
      \<longrightarrow> GetServerInformation self b =
            Done ((\<lparr>Name = a, Vendor = v, Version = w, SpecVersion = x\<rparr>, None), self,
                  transmit b (conn self) GetServerInformation_msg)) \<and>
   (Err (reply b (conn self) GetServerInformation_msg) = None \<and>
    (\<nexists>a' v' w' x'. CallBody (reply b (conn self) GetServerInformation_msg) =
        [GoString a', GoString v', GoString w', GoString x'])
      \<longrightarrow> (\<exists>info e. GetServerInformation self b =
              Done ((info, Some e), self, transmit b (conn self) GetServerInformation_msg) \<and>
            (e = length_mismatch \<or> e = type_mismatch) \<and>
            info_fields info = partially_populated (CallBody (reply b (conn self) GetServerInformation_msg))))"
proof (intro conjI impI)
  assume "Err (reply b (conn self) GetServerInformation_msg) = None \<and>
    CallBody (reply b (conn self) GetServerInformation_msg) =
      [GoString a, GoString v, GoString w, GoString x]"
  then show "GetServerInformation self b =
            Done ((\<lparr>Name = a, Vendor = v, Version = w, SpecVersion = x\<rparr>, None), self,
                  transmit b (conn self) GetServerInformation_msg)"
    by (simp add: GetServerInformation_eq Call_Store_ServerInformation_ok)
next
  assume h: "Err (reply b (conn self) GetServerInformation_msg) = None \<and>
    (\<nexists>a' v' w' x'. CallBody (reply b (conn self) GetServerInformation_msg) =
        [GoString a', GoString v', GoString w', GoString x'])"
  from h have h1: "Err (reply b (conn self) GetServerInformation_msg) = None"
    and h2: "\<nexists>a' v' w' x'. CallBody (reply b (conn self) GetServerInformation_msg) =
        [GoString a', GoString v', GoString w', GoString x']"
    by simp_all
  from Call_Store_ServerInformation_fault [OF h1 h2]
  obtain info e where
    "Call_Store_ServerInformation (reply b (conn self) GetServerInformation_msg)
       ServerInformation_zero = (info, Some e)"
    "e = length_mismatch \<or> e = type_mismatch"
    "info_fields info = partially_populated (CallBody (reply b (conn self) GetServerInformation_msg))"
    by blast
  with h show "\<exists>info e. GetServerInformation self b =
              Done ((info, Some e), self, transmit b (conn self) GetServerInformation_msg) \<and>
            (e = length_mismatch \<or> e = type_mismatch) \<and>
            info_fields info = partially_populated (CallBody (reply b (conn self) GetServerInformation_msg))"
    by (simp add: GetServerInformation_eq)
qed

theorem GetServerInformation_decodes_four_strings_witness:
  "GetServerInformation (New 0)
     (fresh_bus (const_double \<lparr>Err = None, CallBody =
        [GoString ''Notifier'', GoString ''Acme'', GoString ''1.2'', GoString ''1.2'']\<rparr>)) =
   Done ((\<lparr>Name = ''Notifier'', Vendor = ''Acme'', Version = ''1.2'', SpecVersion = ''1.2''\<rparr>, None),
         New 0,
         transmit (fresh_bus (const_double \<lparr>Err = None, CallBody =
            [GoString ''Notifier'', GoString ''Acme'', GoString ''1.2'', GoString ''1.2'']\<rparr>))
           (conn (New 0)) GetServerInformation_msg) \<and>
   (\<nexists>a' v' w' x'. CallBody (reply (fresh_bus (const_double \<lparr>Err = None, CallBody =
        [GoString ''Notifier'', GoString ''Acme'', GoUint32 3, GoString ''1.2'']\<rparr>))
        (conn (New 0)) GetServerInformation_msg) =
        [GoString a', GoString v', GoString w', GoString x']) \<and>
   (\<exists>info e. GetServerInformation (New 0)
       (fresh_bus (const_double \<lparr>Err = None, CallBody =
          [GoString ''Notifier'', GoString ''Acme'', GoUint32 3, GoString ''1.2'']\<rparr>)) =
     Done ((info, Some e), New 0,
         transmit (fresh_bus (const_double \<lparr>Err = None, CallBody =
            [GoString ''Notifier'', GoString ''Acme'', GoUint32 3, GoString ''1.2'']\<rparr>))
           (conn (New 0)) GetServerInformation_msg) \<and>
     (e = length_mismatch \<or> e = type_mismatch) \<and>
     info_fields info = [''Notifier'', ''Acme'', [], []]) \<and>
   (\<nexists>a' v' w' x'. CallBody (reply (fresh_bus (const_double \<lparr>Err = None, CallBody =
        [GoString ''Notifier'', GoString ''Acme'', GoString ''1.2'']\<rparr>))
        (conn (New 0)) GetServerInformation_msg) =
        [GoString a', GoString v', GoString w', GoString x']) \<and>
   (\<exists>info e. GetServerInformation (New 0)
       (fresh_bus (const_double \<lparr>Err = None, CallBody =
          [GoString ''Notifier'', GoString ''Acme'', GoString ''1.2'']\<rparr>)) =
     Done ((info, Some e), New 0,
         transmit (fresh_bus (const_double \<lparr>Err = None, CallBody =
            [GoString ''Notifier'', GoString ''Acme'', GoString ''1.2'']\<rparr>))
           (conn (New 0)) GetServerInformation_msg) \<and>
     (e = length_mismatch \<or> e = type_mismatch) \<and>
     info_fields info = [[], [], [], []])"
  using GetServerInformation_decodes_four_strings [of "fresh_bus (const_double \<lparr>Err = None, CallBody =
        [GoString ''Notifier'', GoString ''Acme'', GoString ''1.2'', GoString ''1.2'']\<rparr>)" "New 0"
        "''Notifier''" "''Acme''" "''1.2''" "''1.2''"]
     GetServerInformation_decodes_four_strings [of "fresh_bus (const_double \<lparr>Err = None, CallBody =
        [GoString ''Notifier'', GoString ''Acme'', GoUint32 3, GoString ''1.2'']\<rparr>)" "New 0"]
     GetServerInformation_decodes_four_strings [of "fresh_bus (const_double \<lparr>Err = None, CallBody =
        [GoString ''Notifier'', GoString ''Acme'', GoString ''1.2'']\<rparr>)" "New 0"]
  by (simp add: reply_def fresh_bus_def const_double_def partially_populated_def decoded_def)

text \<open>
  C7. If the call completes and the reply body is one sequence of strings,
  GetCapabilities returns that very sequence (same elements, same order, duplicates
  kept) with a nil error.
\<close>

theorem GetCapabilities_preserves_sequence:
  "Err (reply b (conn self) GetCapabilities_msg) = None \<and>
   CallBody (reply b (conn self) GetCapabilities_msg) = [GoStrings s]
     \<longrightarrow> GetCapabilities self b =
           Done ((s, None), self, transmit b (conn self) GetCapabilities_msg)"
  by (simp add: GetCapabilities_eq Call_Store_strings_ok)

theorem GetCapabilities_preserves_sequence_witness:
  "Err (reply (fresh_bus (const_double
          \<lparr>Err = None, CallBody = [GoStrings (Slice [''actions'', ''body''])]\<rparr>))
        (conn (New 0)) GetCapabilities_msg) = None \<and>
   CallBody (reply (fresh_bus (const_double
          \<lparr>Err = None, CallBody = [GoStrings (Slice [''actions'', ''body''])]\<rparr>))
        (conn (New 0)) GetCapabilities_msg) = [GoStrings (Slice [''actions'', ''body''])] \<and>
   GetCapabilities (New 0) (fresh_bus (const_double
          \<lparr>Err = None, CallBody = [GoStrings (Slice [''actions'', ''body''])]\<rparr>)) =
     Done ((Slice [''actions'', ''body''], None), New 0,
           transmit (fresh_bus (const_double
              \<lparr>Err = None, CallBody = [GoStrings (Slice [''actions'', ''body''])]\<rparr>))
             (conn (New 0)) GetCapabilities_msg) \<and>
   GetCapabilities (New 0) (fresh_bus (const_double
          \<lparr>Err = None, CallBody = [GoStrings (Slice [''body'', ''actions'', ''body''])]\<rparr>)) =
     Done ((Slice [''body'', ''actions'', ''body''], None), New 0,
           transmit (fresh_bus (const_double
              \<lparr>Err = None, CallBody = [GoStrings (Slice [''body'', ''actions'', ''body''])]\<rparr>))
             (conn (New 0)) GetCapabilities_msg)"
  using GetCapabilities_preserves_sequence [of "fresh_bus (const_double
          \<lparr>Err = None, CallBody = [GoStrings (Slice [''actions'', ''body''])]\<rparr>)" "New 0"
          "Slice [''actions'', ''body'']"]
        GetCapabilities_preserves_sequence [of "fresh_bus (const_double
          \<lparr>Err = None, CallBody = [GoStrings (Slice [''body'', ''actions'', ''body''])]\<rparr>)" "New 0"
          "Slice [''body'', ''actions'', ''body'']"]
  by (simp add: reply_def fresh_bus_def const_double_def)

text \<open>
  C8. For every \<open>id\<close> of Go's type \<open>int\<close>, CloseNotification returns and transmits one
  CloseNotification message whose only argument is the unsigned 32-bit integer equal
  to \<open>id\<close> modulo \<open>2 ^ 32\<close>.
\<close>

theorem CloseNotification_narrows_id:
  "(\<exists>r. CloseNotification self i b =
      Done (r, self, b(conn self := (b (conn self))\<lparr>sent := sent (b (conn self)) @
        [\<lparr>msg_dest = dbusNotificationsInterface, msg_path = objectPath,
          msg_method = closeNotification, msg_flags = 0,
          msg_args = [GoUint32 (ucast i)]\<rparr>]\<rparr>))) \<and>
   uint (ucast i :: uint32) = sint i mod 2 ^ 32"
  by (simp add: CloseNotification_eq transmit_def CloseNotification_msg_def uint_ucast_go_int)

text \<open>
  C9. Each of the four operations returns with the notifier it was called on unchanged,
  so its connection handle is the same before and after; the handle is all a notifier
  stores; and the only effect of a call is that the one request has been transmitted on
  that connection.
\<close>

theorem operations_leave_notifier_unchanged:
  "(\<exists>r. notifier_SendNotification self n b =
      Done (r, self, transmit b (conn self) (Notify_msg n))) \<and>
   (\<exists>r. CloseNotification self i b =
      Done (r, self, transmit b (conn self) (CloseNotification_msg (ucast i)))) \<and>
   (\<exists>r. GetCapabilities self b =
      Done (r, self, transmit b (conn self) GetCapabilities_msg)) \<and>
   (\<exists>r. GetServerInformation self b =
      Done (r, self, transmit b (conn self) GetServerInformation_msg)) \<and>
   self = New (conn self)"
  by (simp add: notifier_SendNotification_def SendNotification_eq CloseNotification_eq
        GetCapabilities_eq GetServerInformation_eq New_def)

text \<open>
  C10. For every connection handle and every notification, the method
  \<open>(&notifier{conn}).SendNotification(n)\<close> and the function \<open>SendNotification(conn, n)\<close>
  return the same id and the same error, and leave the bus in the same state.
\<close>

theorem SendNotification_method_is_function:
  "\<exists>r b'. SendNotification c n b = Done (r, b') \<and>
          notifier_SendNotification \<lparr>conn = c\<rparr> n b = Done (r, \<lparr>conn = c\<rparr>, b')"
  by (simp add: notifier_SendNotification_def SendNotification_eq)

end
